theory Spec2Isabelle
  imports Complex_Main
begin

section \<open>Values, errors and arrays\<close>

text \<open>
  The operators of \<^verbatim>\<open>TokaMaker/_core.py\<close> compute on numpy arrays of floats.
  A sample is modelled as an exact real number or one of the three special values of
  IEEE arithmetic. Rounding, overflow and the sign of zero are not modelled: the real
  \<open>0\<close> stands for \<open>+0.0\<close>. numpy division by zero does not raise: it warns and
  yields an infinity or a not-a-number.
\<close>

datatype npfloat = Fin real | PInf | NInf | NaN

datatype error =
    ValueError | IndexError | AssertionError | TypeError | ZeroDivisionError
  | UnboundLocalError

fun np_neg :: "npfloat \<Rightarrow> npfloat" where
  "np_neg (Fin x) = Fin (- x)"
| "np_neg PInf = NInf"
| "np_neg NInf = PInf"
| "np_neg NaN = NaN"

definition signed_inf :: "real \<Rightarrow> npfloat" where
  "signed_inf s = (if 0 < s then PInf else if s < 0 then NInf else NaN)"

fun np_add :: "npfloat \<Rightarrow> npfloat \<Rightarrow> npfloat" where
  "np_add (Fin x) (Fin y) = Fin (x + y)"
| "np_add NaN b = NaN"
| "np_add a NaN = NaN"
| "np_add PInf NInf = NaN"
| "np_add NInf PInf = NaN"
| "np_add PInf b = PInf"
| "np_add NInf b = NInf"
| "np_add a PInf = PInf"
| "np_add a NInf = NInf"

definition np_sub :: "npfloat \<Rightarrow> npfloat \<Rightarrow> npfloat" where
  "np_sub a b = np_add a (np_neg b)"

fun np_mul :: "npfloat \<Rightarrow> npfloat \<Rightarrow> npfloat" where
  "np_mul (Fin x) (Fin y) = Fin (x * y)"
| "np_mul NaN b = NaN"
| "np_mul a NaN = NaN"
| "np_mul (Fin x) PInf = signed_inf x"
| "np_mul (Fin x) NInf = signed_inf (- x)"
| "np_mul PInf (Fin y) = signed_inf y"
| "np_mul NInf (Fin y) = signed_inf (- y)"
| "np_mul PInf PInf = PInf"
| "np_mul NInf NInf = PInf"
| "np_mul PInf NInf = NInf"
| "np_mul NInf PInf = NInf"

fun np_div :: "npfloat \<Rightarrow> npfloat \<Rightarrow> npfloat" where
  "np_div (Fin x) (Fin y) = (if y = 0 then signed_inf x else Fin (x / y))"
| "np_div NaN b = NaN"
| "np_div a NaN = NaN"
| "np_div (Fin x) PInf = Fin 0"
| "np_div (Fin x) NInf = Fin 0"
| "np_div PInf (Fin y) = (if 0 \<le> y then PInf else NInf)"
| "np_div NInf (Fin y) = (if 0 \<le> y then NInf else PInf)"
| "np_div PInf b = NaN"
| "np_div NInf b = NaN"

text \<open>
  An elementwise binary operator on two one-dimensional arrays: equal lengths combine
  sample by sample, an array of length one is broadcast against the other, and any
  other pair of lengths raises \<^verbatim>\<open>ValueError\<close>.
\<close>

definition broadcast2 ::
  "('a \<Rightarrow> 'b \<Rightarrow> 'c) \<Rightarrow> 'a list \<Rightarrow> 'b list \<Rightarrow> error + 'c list" where
  "broadcast2 f xs ys =
     (if length xs = length ys then Inr (map2 f xs ys)
      else if length xs = 1 then Inr (map (f (hd xs)) ys)
      else if length ys = 1 then Inr (map (\<lambda>x. f x (hd ys)) xs)
      else Inl ValueError)"

fun bind_err :: "error + 'a \<Rightarrow> ('a \<Rightarrow> error + 'b) \<Rightarrow> error + 'b" where
  "bind_err (Inl e) k = Inl e"
| "bind_err (Inr v) k = k v"

section \<open>Flux-function conversion\<close>

text \<open>
  \<^verbatim>\<open>ffprime = (jtor - R_avg * (-pprime)) * (mu0 / one_over_R_avg)\<close>.
  The constant \<^verbatim>\<open>mu0\<close> comes from the package's \<^verbatim>\<open>util\<close> module and is
  a parameter here.
\<close>

definition ffprime_from_jtor_pprime ::
  "real \<Rightarrow> npfloat list \<Rightarrow> npfloat list \<Rightarrow> npfloat list \<Rightarrow> npfloat list
     \<Rightarrow> error + npfloat list" where
  "ffprime_from_jtor_pprime mu0 jtor pprime R_avg one_over_R_avg =
     bind_err (broadcast2 np_mul R_avg (map np_neg pprime)) (\<lambda>t.
     bind_err (broadcast2 np_sub jtor t) (\<lambda>u.
     broadcast2 np_mul u (map (np_div (Fin mu0)) one_over_R_avg)))"

text \<open>
  \<^verbatim>\<open>jtor = R_avg * (-pprime) + one_over_R_avg*ffprime/mu0\<close>.
\<close>

definition jtor_from_ffprime_pprime ::
  "real \<Rightarrow> npfloat list \<Rightarrow> npfloat list \<Rightarrow> npfloat list \<Rightarrow> npfloat list
     \<Rightarrow> error + npfloat list" where
  "jtor_from_ffprime_pprime mu0 ffprime pprime R_avg one_over_R_avg =
     bind_err (broadcast2 np_mul R_avg (map np_neg pprime)) (\<lambda>t.
     bind_err (broadcast2 np_mul one_over_R_avg ffprime) (\<lambda>u.
     broadcast2 np_add t (map (\<lambda>x. np_div x (Fin mu0)) u)))"

section \<open>Flux-surface crossing solver\<close>

text \<open>
  \<^verbatim>\<open>numpy.argmin\<close>: the index of the first occurrence of the least sample. The empty
  array, on which numpy raises, is caught by the caller below.
\<close>

fun argmin :: "real list \<Rightarrow> nat" where
  "argmin [] = 0"
| "argmin [x] = 0"
| "argmin (x # y # ys) =
     (let k = argmin (y # ys) in if x \<le> (y # ys) ! k then 0 else Suc k)"

text \<open>Python's \<^verbatim>\<open>min\<close> and \<^verbatim>\<open>max\<close> over a non-empty sequence.\<close>

definition py_min :: "real list \<Rightarrow> real" where
  "py_min xs = foldl min (hd xs) (tl xs)"

definition py_max :: "real list \<Rightarrow> real" where
  "py_max xs = foldl max (hd xs) (tl xs)"

text \<open>
  The checks of scipy's \<^verbatim>\<open>CubicSpline(x, y)\<close> constructor on one-dimensional
  data: at least two knots, as many values as knots, strictly increasing knots.
  A failed check raises \<^verbatim>\<open>ValueError\<close>.
\<close>

definition CubicSpline_ok :: "real list \<Rightarrow> real list \<Rightarrow> bool" where
  "CubicSpline_ok x y \<longleftrightarrow> 2 \<le> length x \<and> length y = length x \<and> sorted_wrt (<) x"

text \<open>
  \<^verbatim>\<open>roots = [x for x in roots if x > 0.0 and x < 1.0]\<close>, where the first argument
  stands for \<^verbatim>\<open>CubicSpline(psi, qcross).roots()\<close>, a routine of scipy.
\<close>

definition interior_roots ::
  "(real list \<Rightarrow> real list \<Rightarrow> real list) \<Rightarrow> real list \<Rightarrow> real list \<Rightarrow> real list" where
  "interior_roots spline_roots psi qcross =
     filter (\<lambda>x. x > 0 \<and> x < 1) (spline_roots psi qcross)"

text \<open>
  \<^verbatim>\<open>solve_for_psi_crossing(psi, qvals, qmin)\<close>. The result is the returned triple
  \<^verbatim>\<open>(found, psicross, qcross_arg)\<close>, with \<^verbatim>\<open>None\<close> as \<open>None\<close>, or the
  exception raised. The printed messages are left out.
\<close>

definition solve_for_psi_crossing ::
  "(real list \<Rightarrow> real list \<Rightarrow> real list) \<Rightarrow> real list \<Rightarrow> real list \<Rightarrow> real
     \<Rightarrow> error + (bool \<times> real option \<times> nat option)" where
  "solve_for_psi_crossing spline_roots psi qvals qmin =
     (let qcross = map (\<lambda>q. q - qmin) qvals in
      if qcross = [] then Inl ValueError
      else
        let qmin_arg = argmin qcross;
            qcross_arg = argmin (map abs qcross) in
        if qcross ! qmin_arg > 0 then Inr (False, None, None)
        else if qcross ! 0 > qmin then Inr (False, None, None)
        else if qcross ! qcross_arg = 0 then
          (if qcross_arg < length psi
           then Inr (True, Some (psi ! qcross_arg), Some qcross_arg)
           else Inl IndexError)
        else if \<not> CubicSpline_ok psi qcross then Inl ValueError
        else
          let roots = interior_roots spline_roots psi qcross in
          if length roots > 0 then
            (if length roots > 3 then Inr (False, None, None)
             else if length roots = 1 then Inr (True, Some (roots ! 0), Some qcross_arg)
             else if length roots = 2 then
               (if \<not> last qcross > 0 then Inl AssertionError
                else if roots ! 1 - roots ! 0 > 3 / 10 \<and> py_min qvals < qmin - 1 / 10
                then Inr (False, None, None)
                else Inr (True, Some (py_max roots), Some qcross_arg))
             else
               (if roots ! 2 - roots ! 0 > 3 / 10 then Inr (False, None, None)
                else Inr (True, Some (py_max roots), Some qcross_arg)))
          else Inr (False, None, None))"

text \<open>
  The inputs that pass the three early branches and the spline constructor, and so
  reach \<^verbatim>\<open>qcross_spln.roots()\<close>.
\<close>

definition reaches_root_finding :: "real list \<Rightarrow> real list \<Rightarrow> real \<Rightarrow> bool" where
  "reaches_root_finding psi qvals qmin \<longleftrightarrow>
     (let qcross = map (\<lambda>q. q - qmin) qvals in
      qcross \<noteq> [] \<and> \<not> qcross ! argmin qcross > 0 \<and> \<not> qcross ! 0 > qmin
      \<and> qcross ! argmin (map abs qcross) \<noteq> 0 \<and> CubicSpline_ok psi qcross)"

text \<open>
  A concrete root finder for grids of three knots, used to run the solver on explicit
  inputs. With its default boundary condition scipy's cubic spline through three points
  is the parabola through them; its real roots are listed in increasing order.
\<close>

definition quadratic_roots :: "real \<Rightarrow> real \<Rightarrow> real \<Rightarrow> real list" where
  "quadratic_roots a b c =
     (if a = 0 then (if b = 0 then [] else [- c / b])
      else
        let disc = b * b - 4 * a * c in
        if disc < 0 then []
        else if disc = 0 then [- b / (2 * a)]
        else sort [(- b - sqrt disc) / (2 * a), (- b + sqrt disc) / (2 * a)])"

definition three_knot_roots :: "real list \<Rightarrow> real list \<Rightarrow> real list" where
  "three_knot_roots x y =
     (case (x, y) of
        ([x0, x1, x2], [y0, y1, y2]) \<Rightarrow>
          let f01 = (y1 - y0) / (x1 - x0);
              f12 = (y2 - y1) / (x2 - x1);
              f012 = (f12 - f01) / (x2 - x0)
          in quadratic_roots f012 (f01 - f012 * (x0 + x1)) (y0 - f01 * x0 + f012 * x0 * x1)
      | _ \<Rightarrow> [])"

section \<open>Flux-surface integral and current rescaling\<close>

text \<open>
  The first argument stands for scipy's
  \<^verbatim>\<open>CubicSpline(x, y).integrate(a, b, extrapolate=False)\<close>.
  \<^verbatim>\<open>cross_section_surf_int(profile, a_avgs)\<close> is \<open>2 \<pi>\<close> times the integral of the
  spline through \<^verbatim>\<open>a_avgs*profile\<close> from the least to the greatest knot.
\<close>

definition cross_section_surf_int ::
  "(real list \<Rightarrow> real list \<Rightarrow> real \<Rightarrow> real \<Rightarrow> real) \<Rightarrow> real list \<Rightarrow> real list
     \<Rightarrow> error + real" where
  "cross_section_surf_int spline_integrate profile a_avgs =
     bind_err (broadcast2 (*) a_avgs profile) (\<lambda>y.
       if \<not> CubicSpline_ok a_avgs y then Inl ValueError
       else Inr (2 * pi * spline_integrate a_avgs y (py_min a_avgs) (py_max a_avgs)))"

text \<open>
  \<^verbatim>\<open>rescale_Jtor(jtor_total, Ip_target, a_avgs)\<close>. The quotient
  \<^verbatim>\<open>Ip_target/cross_section_surf_int\<close> is a numpy float division: a zero divisor
  gives an infinity or a not-a-number, not an exception.
\<close>

definition rescale_Jtor ::
  "(real list \<Rightarrow> real list \<Rightarrow> real \<Rightarrow> real \<Rightarrow> real) \<Rightarrow> real list \<Rightarrow> real \<Rightarrow> real list
     \<Rightarrow> error + (npfloat list \<times> npfloat)" where
  "rescale_Jtor spline_integrate jtor_total Ip_target a_avgs =
     bind_err (broadcast2 (*) a_avgs jtor_total) (\<lambda>y.
       if \<not> CubicSpline_ok a_avgs y then Inl ValueError
       else
         let cross_section_surf_int =
               2 * pi * spline_integrate a_avgs y (py_min a_avgs) (py_max a_avgs);
             rescaling_factor = np_div (Fin Ip_target) (Fin cross_section_surf_int)
         in Inr (map (\<lambda>j. np_mul (Fin j) rescaling_factor) jtor_total, rescaling_factor))"

text \<open>
  A concrete integrator for grids of two knots, used to run the rescaler on explicit
  inputs: scipy's cubic spline through two points is the straight line through them.
\<close>

definition two_knot_integrate :: "real list \<Rightarrow> real list \<Rightarrow> real \<Rightarrow> real \<Rightarrow> real" where
  "two_knot_integrate x y a b =
     (case (x, y) of
        ([x0, x1], [y0, y1]) \<Rightarrow>
          let s = (y1 - y0) / (x1 - x0);
              pa = y0 + s * (a - x0);
              pb = y0 + s * (b - x0)
          in (b - a) * (pa + pb) / 2
      | _ \<Rightarrow> 0)"

section \<open>Bootstrap-current drivers\<close>

text \<open>
  \<^verbatim>\<open>solve_with_bootstrap\<close> and \<^verbatim>\<open>basic_dynamo_w_bootstrap\<close> alternate between a
  profile computation (the nested function \<^verbatim>\<open>profile_iteration\<close>) and an equilibrium
  solve. The model keeps the control flow of the two drivers and leaves open what they
  call:

  \<^item> the solver state \<open>'s\<close> stands for the equilibrium object \<^verbatim>\<open>self\<close> together with the
    arrays the driver threads from one call of \<^verbatim>\<open>profile_iteration\<close> to the next
    (\<^verbatim>\<open>inductive_jtor\<close>, \<^verbatim>\<open>q_1_psi_location\<close>);
  \<^item> \<^verbatim>\<open>self.set_profiles\<close>, \<^verbatim>\<open>self.solve\<close> and \<^verbatim>\<open>self.get_q\<close> are the fields of a record
    of functions on that state;
  \<^item> \<^verbatim>\<open>profile_iteration\<close> is a parameter returning either an error or the two profiles
    (and, in the dynamo variant, its estimate of \<open>q0\<close>) with the new state. Of its keyword
    arguments the model passes those that change from call to call: \<^verbatim>\<open>init_Lmode\<close>,
    \<^verbatim>\<open>rescale_ind_Jtor_by_ftr\<close> and \<^verbatim>\<open>iteration\<close>.

  Every way out of a driver is a value of \<open>exit_kind\<close>: the three \<^verbatim>\<open>return\<close>s after a failed
  solve or a \<^verbatim>\<open>break\<close>, the \<^verbatim>\<open>return\<close> after the loop condition has become false, the
  \<^verbatim>\<open>raise TypeError\<close> of the loop, and an exception of a called function or of an
  index that is out of range.
\<close>

datatype exit_kind =
    Init_solve_failed | Solve_failed | Converged_break | Max_iterations_break
  | Loop_exhausted | Not_converged_raise | Raised error

text \<open>
  A profile is the dictionary \<^verbatim>\<open>{'type': 'linterp', 'x': ..., 'y': ...}\<close>; the samples
  \<^verbatim>\<open>y\<close> are numpy floats and may be infinite or not-a-number.
\<close>

record profile =
  prof_x :: "real list"
  prof_y :: "npfloat list"

text \<open>
  \<^verbatim>\<open>numpy.nan_to_num\<close> with its default arguments: not-a-number becomes \<open>0\<close>, an infinity
  becomes the largest finite double of its sign.
\<close>

definition float_max :: real where
  "float_max = (2 - 1 / 2 ^ 52) * 2 ^ 1023"

fun nan_to_num1 :: "npfloat \<Rightarrow> npfloat" where
  "nan_to_num1 NaN = Fin 0"
| "nan_to_num1 PInf = Fin float_max"
| "nan_to_num1 NInf = Fin (- float_max)"
| "nan_to_num1 (Fin x) = Fin x"

definition nan_to_num :: "npfloat list \<Rightarrow> npfloat list" where
  "nan_to_num ys = map nan_to_num1 ys"

text \<open>
  \<^verbatim>\<open>prof['y'][-1] = 0.\<close> raises \<^verbatim>\<open>IndexError\<close> on an empty array.
\<close>

definition set_last_zero :: "npfloat list \<Rightarrow> error + npfloat list" where
  "set_last_zero ys =
     (if ys = [] then Inl IndexError else Inr (ys[length ys - 1 := Fin 0]))"

text \<open>
  The four statements between \<^verbatim>\<open>profile_iteration\<close> and \<^verbatim>\<open>set_profiles\<close>, the same in
  both drivers and in their initialisation: the edge value of \<^verbatim>\<open>pp_prof\<close>, then of
  \<^verbatim>\<open>ffp_prof\<close>, is set to zero, then \<^verbatim>\<open>nan_to_num\<close> is applied to both.
\<close>

definition enforce_edge_and_clean :: "profile \<Rightarrow> profile \<Rightarrow> error + (profile \<times> profile)" where
  "enforce_edge_and_clean pp_prof ffp_prof =
     bind_err (set_last_zero (prof_y pp_prof)) (\<lambda>py.
     bind_err (set_last_zero (prof_y ffp_prof)) (\<lambda>fy.
     Inr (pp_prof\<lparr>prof_y := nan_to_num py\<rparr>, ffp_prof\<lparr>prof_y := nan_to_num fy\<rparr>)))"

record 's solver_api =
  api_set_profiles :: "profile \<Rightarrow> profile \<Rightarrow> 's \<Rightarrow> 's"
  api_solve :: "'s \<Rightarrow> int \<times> 's"
  api_get_q :: "'s \<Rightarrow> real list"

text \<open>
  The local variables of a driver. \<open>iter_n\<close> is the counter \<^verbatim>\<open>n\<close>. Two fields are not
  variables of the code and only record what happened: \<open>loop_runs\<close> counts the entries
  into the loop body, and \<open>handed\<close> lists the arguments \<^verbatim>\<open>(ffp_prof, pp_prof)\<close> of every
  call of \<^verbatim>\<open>set_profiles\<close>, in order.
\<close>

record 's run =
  solver :: 's
  iter_n :: int
  flag :: int
  rescale_ind_Jtor_by_ftr :: bool
  loop_runs :: nat
  handed :: "(profile \<times> profile) list"
  q0_vals :: "real list"
  flag_end :: bool

subsection \<open>The plain driver\<close>

type_synonym 's bootstrap_step =
  "bool \<Rightarrow> bool \<Rightarrow> int \<Rightarrow> 's \<Rightarrow> error + ((profile \<times> profile) \<times> 's)"

text \<open>
  The loop passes \<^verbatim>\<open>iteration=n\<close> only when \<^verbatim>\<open>plot_iteration\<close> is set; otherwise
  \<^verbatim>\<open>profile_iteration\<close> sees its default \<open>-1\<close>.
\<close>

definition iteration_arg :: "bool \<Rightarrow> int \<Rightarrow> int" where
  "iteration_arg plot_iteration k = (if plot_iteration then k else - 1)"

text \<open>
  One pass through the body of \<^verbatim>\<open>while n <= max_iterations\<close>. \<open>Inl\<close> leaves the driver,
  \<open>Inr\<close> goes back to the loop condition.
\<close>

definition bootstrap_iteration ::
  "'s solver_api \<Rightarrow> 's bootstrap_step \<Rightarrow> bool \<Rightarrow> int \<Rightarrow> 's run
     \<Rightarrow> (exit_kind \<times> 's run) + 's run" where
  "bootstrap_iteration api profile_iteration plot_iteration max_iterations r =
     (let r0 = r\<lparr>loop_runs := loop_runs r + 1\<rparr> in
      case profile_iteration False (rescale_ind_Jtor_by_ftr r0)
             (iteration_arg plot_iteration (iter_n r0)) (solver r0) of
        Inl e \<Rightarrow> Inl (Raised e, r0)
      | Inr ((pp_prof, ffp_prof), s1) \<Rightarrow>
          (case enforce_edge_and_clean pp_prof ffp_prof of
             Inl e \<Rightarrow> Inl (Raised e, r0\<lparr>solver := s1\<rparr>)
           | Inr (pp, ffp) \<Rightarrow>
               let s2 = api_set_profiles api ffp pp s1;
                   fl = fst (api_solve api s2);
                   s3 = snd (api_solve api s2);
                   r1 = r0\<lparr>solver := s3, iter_n := iter_n r0 + 1, flag := fl,
                          rescale_ind_Jtor_by_ftr := False,
                          handed := handed r0 @ [(ffp, pp)]\<rparr>
               in if fl < 0 then Inl (Solve_failed, r1)
                  else if iter_n r1 > max_iterations \<and> fl \<ge> 0
                    then Inl (Max_iterations_break, r1)
                  else if iter_n r1 > max_iterations + 1
                    then Inl (Not_converged_raise, r1)
                  else Inr r1))"

text \<open>
  The loop. When the condition is false the code reaches the final \<^verbatim>\<open>return\<close>, which reads
  \<^verbatim>\<open>pp_prof\<close>: a variable that is unbound if the body never ran.
\<close>

function bootstrap_loop ::
  "'s solver_api \<Rightarrow> 's bootstrap_step \<Rightarrow> bool \<Rightarrow> int \<Rightarrow> 's run \<Rightarrow> exit_kind \<times> 's run" where
  "bootstrap_loop api profile_iteration plot_iteration max_iterations r =
     (if iter_n r \<le> max_iterations then
        (case bootstrap_iteration api profile_iteration plot_iteration max_iterations r of
           Inl res \<Rightarrow> res
         | Inr r' \<Rightarrow> bootstrap_loop api profile_iteration plot_iteration max_iterations r')
      else if loop_runs r = 0 then (Raised UnboundLocalError, r)
      else (Loop_exhausted, r))"
  by pat_completeness auto
termination
  by (relation "measure (\<lambda>(api, pit, plot, mx, r). nat (mx + 1 - iter_n r))")
    (auto simp: bootstrap_iteration_def Let_def split: sum.splits prod.splits if_splits)

text \<open>
  The block under \<^verbatim>\<open>if initialize_eq:\<close>, from the call of \<^verbatim>\<open>profile_iteration\<close> with
  \<^verbatim>\<open>init_Lmode=True\<close> to the \<^verbatim>\<open>return\<close> on a negative flag.
\<close>

definition bootstrap_initialize ::
  "'s solver_api \<Rightarrow> 's bootstrap_step \<Rightarrow> 's run \<Rightarrow> (exit_kind \<times> 's run) + 's run" where
  "bootstrap_initialize api profile_iteration r =
     (case profile_iteration True (rescale_ind_Jtor_by_ftr r) (- 1) (solver r) of
        Inl e \<Rightarrow> Inl (Raised e, r)
      | Inr ((init_pp_prof, init_ffp_prof), s1) \<Rightarrow>
          (case enforce_edge_and_clean init_pp_prof init_ffp_prof of
             Inl e \<Rightarrow> Inl (Raised e, r\<lparr>solver := s1\<rparr>)
           | Inr (pp, ffp) \<Rightarrow>
               let s2 = api_set_profiles api ffp pp s1;
                   fl = fst (api_solve api s2);
                   s3 = snd (api_solve api s2);
                   r1 = r\<lparr>solver := s3, flag := fl, rescale_ind_Jtor_by_ftr := False,
                         handed := handed r @ [(ffp, pp)]\<rparr>
               in if fl < 0 then Inl (Init_solve_failed, r1) else Inr r1))"

definition initial_run :: "'s \<Rightarrow> bool \<Rightarrow> 's run" where
  "initial_run s0 rescale =
     \<lparr>solver = s0, iter_n = 0, flag = - 1, rescale_ind_Jtor_by_ftr = rescale,
      loop_runs = 0, handed = [], q0_vals = [], flag_end = False\<rparr>"

definition solve_with_bootstrap ::
  "'s solver_api \<Rightarrow> 's bootstrap_step \<Rightarrow> bool \<Rightarrow> int \<Rightarrow> bool \<Rightarrow> bool \<Rightarrow> 's
     \<Rightarrow> exit_kind \<times> 's run" where
  "solve_with_bootstrap api profile_iteration plot_iteration max_iterations
       rescale initialize_eq s0 =
     (if initialize_eq then
        (case bootstrap_initialize api profile_iteration (initial_run s0 rescale) of
           Inl res \<Rightarrow> res
         | Inr r \<Rightarrow>
             bootstrap_loop api profile_iteration plot_iteration max_iterations
               (r\<lparr>iter_n := 0, flag := - 1\<rparr>))
      else
        bootstrap_loop api profile_iteration plot_iteration max_iterations
          (initial_run s0 rescale))"

subsection \<open>The dynamo driver\<close>

text \<open>
  The dynamo variant differs in four places: \<^verbatim>\<open>profile_iteration\<close> also returns its
  estimate of \<open>q0\<close>, which is appended to \<^verbatim>\<open>q0_vals\<close>; \<^verbatim>\<open>iteration=n\<close> is always passed;
  after the solve the \<open>q\<close> profile is read again with \<^verbatim>\<open>self.get_q\<close> and
  \<^verbatim>\<open>flag_end\<close> is \<^verbatim>\<open>qvals[0]>1.02 and qvals[0]<1.07\<close>; and \<^verbatim>\<open>flag_end\<close> with a
  non-negative flag breaks out of the loop before the test on \<^verbatim>\<open>n\<close>. The constants
  \<open>1.02\<close> and \<open>1.07\<close> are taken as exact decimals.
\<close>

type_synonym 's dynamo_step =
  "bool \<Rightarrow> bool \<Rightarrow> int \<Rightarrow> 's \<Rightarrow> error + ((profile \<times> profile \<times> real) \<times> 's)"

definition dynamo_iteration ::
  "'s solver_api \<Rightarrow> 's dynamo_step \<Rightarrow> int \<Rightarrow> 's run \<Rightarrow> (exit_kind \<times> 's run) + 's run" where
  "dynamo_iteration api profile_iteration max_iterations r =
     (let r0 = r\<lparr>loop_runs := loop_runs r + 1\<rparr> in
      case profile_iteration False (rescale_ind_Jtor_by_ftr r0) (iter_n r0) (solver r0) of
        Inl e \<Rightarrow> Inl (Raised e, r0)
      | Inr ((pp_prof, ffp_prof, q0), s1) \<Rightarrow>
          let ra = r0\<lparr>solver := s1, q0_vals := q0_vals r0 @ [q0]\<rparr> in
          (case enforce_edge_and_clean pp_prof ffp_prof of
             Inl e \<Rightarrow> Inl (Raised e, ra)
           | Inr (pp, ffp) \<Rightarrow>
               let s2 = api_set_profiles api ffp pp s1;
                   fl = fst (api_solve api s2);
                   s3 = snd (api_solve api s2);
                   rb = ra\<lparr>solver := s3, flag := fl, handed := handed ra @ [(ffp, pp)]\<rparr>;
                   qvals = api_get_q api s3
               in if qvals = [] then Inl (Raised IndexError, rb)
                  else
                    let fe = (qvals ! 0 > 102 / 100 \<and> qvals ! 0 < 107 / 100);
                        r1 = rb\<lparr>iter_n := iter_n rb + 1, rescale_ind_Jtor_by_ftr := False,
                               flag_end := fe\<rparr>
                    in if fl < 0 then Inl (Solve_failed, r1)
                       else if fe \<and> fl \<ge> 0 then Inl (Converged_break, r1)
                       else if iter_n r1 > max_iterations \<and> fl \<ge> 0
                         then Inl (Max_iterations_break, r1)
                       else if iter_n r1 > max_iterations + 1
                         then Inl (Not_converged_raise, r1)
                       else Inr r1))"

function dynamo_loop ::
  "'s solver_api \<Rightarrow> 's dynamo_step \<Rightarrow> int \<Rightarrow> 's run \<Rightarrow> exit_kind \<times> 's run" where
  "dynamo_loop api profile_iteration max_iterations r =
     (if iter_n r \<le> max_iterations then
        (case dynamo_iteration api profile_iteration max_iterations r of
           Inl res \<Rightarrow> res
         | Inr r' \<Rightarrow> dynamo_loop api profile_iteration max_iterations r')
      else if loop_runs r = 0 then (Raised UnboundLocalError, r)
      else (Loop_exhausted, r))"
  by pat_completeness auto
termination
  by (relation "measure (\<lambda>(api, pit, mx, r). nat (mx + 1 - iter_n r))")
    (auto simp: dynamo_iteration_def Let_def split: sum.splits prod.splits if_splits)

definition dynamo_initialize ::
  "'s solver_api \<Rightarrow> 's dynamo_step \<Rightarrow> 's run \<Rightarrow> (exit_kind \<times> 's run) + 's run" where
  "dynamo_initialize api profile_iteration r =
     (case profile_iteration True (rescale_ind_Jtor_by_ftr r) (- 1) (solver r) of
        Inl e \<Rightarrow> Inl (Raised e, r)
      | Inr ((init_pp_prof, init_ffp_prof, q0), s1) \<Rightarrow>
          let ra = r\<lparr>solver := s1, q0_vals := q0_vals r @ [q0]\<rparr> in
          (case enforce_edge_and_clean init_pp_prof init_ffp_prof of
             Inl e \<Rightarrow> Inl (Raised e, ra)
           | Inr (pp, ffp) \<Rightarrow>
               let s2 = api_set_profiles api ffp pp s1;
                   fl = fst (api_solve api s2);
                   s3 = snd (api_solve api s2);
                   r1 = ra\<lparr>solver := s3, flag := fl, rescale_ind_Jtor_by_ftr := False,
                          handed := handed ra @ [(ffp, pp)]\<rparr>
               in if fl < 0 then Inl (Init_solve_failed, r1) else Inr r1))"

definition basic_dynamo_w_bootstrap ::
  "'s solver_api \<Rightarrow> 's dynamo_step \<Rightarrow> int \<Rightarrow> bool \<Rightarrow> bool \<Rightarrow> 's \<Rightarrow> exit_kind \<times> 's run" where
  "basic_dynamo_w_bootstrap api profile_iteration max_iterations rescale initialize_eq s0 =
     (if initialize_eq then
        (case dynamo_initialize api profile_iteration (initial_run s0 rescale) of
           Inl res \<Rightarrow> res
         | Inr r \<Rightarrow>
             dynamo_loop api profile_iteration max_iterations (r\<lparr>iter_n := 0, flag := - 1\<rparr>))
      else dynamo_loop api profile_iteration max_iterations (initial_run s0 rescale))"

declare bootstrap_loop.simps [simp del] dynamo_loop.simps [simp del]

subsection \<open>Properties of runs\<close>

text \<open>
  A profile as the solver should receive it: the last sample is exactly zero and no sample
  is not-a-number.
\<close>

definition edge_zero_no_nan :: "profile \<Rightarrow> bool" where
  "edge_zero_no_nan p \<longleftrightarrow> prof_y p \<noteq> [] \<and> last (prof_y p) = Fin 0 \<and> NaN \<notin> set (prof_y p)"

definition all_handed_clean :: "'s run \<Rightarrow> bool" where
  "all_handed_clean r \<longleftrightarrow>
     (\<forall>(ffp, pp) \<in> set (handed r). edge_zero_no_nan pp \<and> edge_zero_no_nan ffp)"

text \<open>
  A \<^verbatim>\<open>profile_iteration\<close> that never raises and returns non-empty sample arrays.
\<close>

definition step_succeeds :: "'s bootstrap_step \<Rightarrow> bool" where
  "step_succeeds pit \<longleftrightarrow>
     (\<forall>il rs it s. \<exists>pp ffp s'. pit il rs it s = Inr ((pp, ffp), s')
        \<and> prof_y pp \<noteq> [] \<and> prof_y ffp \<noteq> [])"

subsection \<open>Collaborators for explicit runs\<close>

text \<open>
  A step that always returns the same two profiles, with a not-a-number and an infinity among
  their samples and a non-zero edge value, and \<open>0.9\<close> as its estimate of \<open>q0\<close>; and a solver
  whose state counts the solves, whose solve always succeeds with flag \<open>0\<close>, and whose
  \<open>q\<close> profile is \<open>[q0, 2]\<close>.
\<close>

definition demo_grid :: "real list" where
  "demo_grid = [0, 1 / 2, 1]"

definition demo_pp :: profile where
  "demo_pp = \<lparr>prof_x = demo_grid, prof_y = [Fin 1, NaN, Fin 2]\<rparr>"

definition demo_ffp :: profile where
  "demo_ffp = \<lparr>prof_x = demo_grid, prof_y = [Fin 1, PInf, NaN]\<rparr>"

definition demo_step :: "nat bootstrap_step" where
  "demo_step init_Lmode rescale iteration s = Inr ((demo_pp, demo_ffp), s)"

definition demo_dynamo_step :: "nat dynamo_step" where
  "demo_dynamo_step init_Lmode rescale iteration s = Inr ((demo_pp, demo_ffp, 9 / 10), s)"

definition demo_api :: "real \<Rightarrow> nat solver_api" where
  "demo_api q0 =
     \<lparr>api_set_profiles = (\<lambda>ffp pp s. s), api_solve = (\<lambda>s. (0, Suc s)),
      api_get_q = (\<lambda>s. [q0, 2])\<rparr>"

text \<open>What \<^verbatim>\<open>set_profiles\<close> receives for these two profiles.\<close>

definition demo_clean_pp :: profile where
  "demo_clean_pp = \<lparr>prof_x = demo_grid, prof_y = [Fin 1, Fin 0, Fin 0]\<rparr>"

definition demo_clean_ffp :: profile where
  "demo_clean_ffp = \<lparr>prof_x = demo_grid, prof_y = [Fin 1, Fin float_max, Fin 0]\<rparr>"

section \<open>Properties of the flux-function conversion\<close>

lemma broadcast2_same_length:
  "length xs = length ys \<Longrightarrow> broadcast2 f xs ys = Inr (map2 f xs ys)"
  by (simp add: broadcast2_def)

lemma ffprime_equal_lengths:
  assumes "length jtor = n" "length pprime = n" "length R_avg = n"
    "length one_over_R_avg = n"
  shows "ffprime_from_jtor_pprime mu0 jtor pprime R_avg one_over_R_avg =
    Inr (map (\<lambda>i. np_mul (np_sub (jtor ! i) (np_mul (R_avg ! i) (np_neg (pprime ! i))))
                      (np_div (Fin mu0) (one_over_R_avg ! i))) [0..<n])"
  using assms
  by (auto simp: ffprime_from_jtor_pprime_def broadcast2_same_length
      intro!: nth_equalityI)

lemma jtor_equal_lengths:
  assumes "length ffprime = n" "length pprime = n" "length R_avg = n"
    "length one_over_R_avg = n"
  shows "jtor_from_ffprime_pprime mu0 ffprime pprime R_avg one_over_R_avg =
    Inr (map (\<lambda>i. np_add (np_mul (R_avg ! i) (np_neg (pprime ! i)))
                      (np_div (np_mul (one_over_R_avg ! i) (ffprime ! i)) (Fin mu0)))
           [0..<n])"
  using assms
  by (auto simp: jtor_from_ffprime_pprime_def broadcast2_same_length
      intro!: nth_equalityI)

text \<open>
  C1. With four arrays of one length, the sample of \<^verbatim>\<open>ffprime\<close> at every index
  whose inputs are finite and whose \<open>one_over_R_avg\<close> is nonzero is
  \<open>(jtor - R_avg \<cdot> (- pprime)) \<cdot> mu0 / one_over_R_avg\<close>: the formula carries no
  factor of two.
\<close>

theorem ffprime_pointwise_formula:
  assumes "length jtor = n" "length pprime = n" "length R_avg = n"
    "length one_over_R_avg = n" "i < n"
    "jtor ! i = Fin j" "pprime ! i = Fin p" "R_avg ! i = Fin r"
    "one_over_R_avg ! i = Fin w" "w \<noteq> 0"
  shows "\<exists>ff. ffprime_from_jtor_pprime mu0 jtor pprime R_avg one_over_R_avg = Inr ff
    \<and> length ff = n \<and> ff ! i = Fin ((j - r * (- p)) * mu0 / w)"
  using assms by (simp add: ffprime_equal_lengths [of jtor n] np_sub_def)

theorem ffprime_pointwise_formula_witness:
  "\<exists>ff. ffprime_from_jtor_pprime 2 [Fin 3, Fin 1] [Fin 1, Fin 0] [Fin 2, Fin 2]
      [Fin 4, Fin 1] = Inr ff
    \<and> length ff = 2 \<and> ff ! 0 = Fin ((3 - 2 * (- 1)) * 2 / 4)"
  using ffprime_pointwise_formula [of "[Fin 3, Fin 1]" 2 "[Fin 1, Fin 0]"
      "[Fin 2, Fin 2]" "[Fin 4, Fin 1]" 0 3 1 2 4 2]
  by simp

text \<open>
  C10. On finite arrays of one length with every \<open>one_over_R_avg\<close> sample nonzero
  (and the constant \<open>mu0\<close> nonzero), converting a current profile to \<^verbatim>\<open>FF'\<close>
  and back returns the current profile itself, in exact arithmetic.
\<close>

theorem jtor_ffprime_roundtrip:
  assumes "length jtor = n" "length pprime = n" "length R_avg = n"
    "length one_over_R_avg = n" "\<forall>w \<in> set one_over_R_avg. w \<noteq> 0" "mu0 \<noteq> 0"
  shows "bind_err
      (ffprime_from_jtor_pprime mu0 (map Fin jtor) (map Fin pprime) (map Fin R_avg)
         (map Fin one_over_R_avg))
      (\<lambda>ff. jtor_from_ffprime_pprime mu0 ff (map Fin pprime) (map Fin R_avg)
         (map Fin one_over_R_avg))
    = Inr (map Fin jtor)"
proof -
  let ?ff = "map (\<lambda>i. Fin ((jtor ! i - R_avg ! i * (- pprime ! i))
                * (mu0 / one_over_R_avg ! i))) [0..<n]"
  have nz: "one_over_R_avg ! i \<noteq> 0" if "i < n" for i
    using assms(4,5) that by (metis nth_mem)
  have ff: "ffprime_from_jtor_pprime mu0 (map Fin jtor) (map Fin pprime) (map Fin R_avg)
      (map Fin one_over_R_avg) = Inr ?ff"
    using assms(1-4) nz
    by (simp add: ffprime_equal_lengths [of _ n] np_sub_def)
  have jt: "jtor_from_ffprime_pprime mu0 ?ff (map Fin pprime) (map Fin R_avg)
      (map Fin one_over_R_avg) = Inr (map Fin jtor)"
  proof -
    have "jtor_from_ffprime_pprime mu0 ?ff (map Fin pprime) (map Fin R_avg)
        (map Fin one_over_R_avg)
      = Inr (map (\<lambda>i. Fin (R_avg ! i * (- pprime ! i)
             + one_over_R_avg ! i * ((jtor ! i - R_avg ! i * (- pprime ! i))
                * (mu0 / one_over_R_avg ! i)) / mu0)) [0..<n])"
      using assms(1-4,6) by (simp add: jtor_equal_lengths [of _ n])
    also have "\<dots> = Inr (map Fin jtor)"
      using assms(1,6) nz by (auto intro!: nth_equalityI simp: field_simps)
    finally show ?thesis .
  qed
  show ?thesis unfolding ff bind_err.simps by (rule jt)
qed

theorem jtor_ffprime_roundtrip_witness:
  "bind_err
      (ffprime_from_jtor_pprime 2 (map Fin [3, 1]) (map Fin [1, 0]) (map Fin [2, 2])
         (map Fin [4, 1]))
      (\<lambda>ff. jtor_from_ffprime_pprime 2 ff (map Fin [1, 0]) (map Fin [2, 2])
         (map Fin [4, 1]))
    = Inr (map Fin [3, 1])"
  using jtor_ffprime_roundtrip [of "[3, 1]" 2 "[1, 0]" "[2, 2]" "[4, 1]" 2]
  by simp

section \<open>Properties of the crossing solver\<close>

lemma argmin_less: "xs \<noteq> [] \<Longrightarrow> argmin xs < length xs"
  by (induction xs rule: argmin.induct) (auto simp: Let_def)

lemma argmin_least: "x \<in> set xs \<Longrightarrow> xs ! argmin xs \<le> x"
  by (induction xs rule: argmin.induct) (auto simp: Let_def)

lemma py_min_Min: "xs \<noteq> [] \<Longrightarrow> py_min xs = Min (set xs)"
  by (cases xs) (simp_all add: py_min_def foldl_conv_fold min.commute flip: Min.set_eq_fold)

lemma sqrt_64: "sqrt 64 = 8"
  by (rule real_sqrt_unique) simp_all

lemma sqrt_400: "sqrt 400 = 20"
  by (rule real_sqrt_unique) simp_all

lemma sqrt_16_25: "sqrt (16 / 25) = 4 / 5"
  by (rule real_sqrt_unique) (simp_all add: power2_eq_square)

lemma roots_dip_wide: "three_knot_roots [0, 1/2, 1] [3, -1, 3] = [1/4, 3/4]"
  by (simp add: three_knot_roots_def quadratic_roots_def sqrt_64)

lemma roots_dip_narrow: "three_knot_roots [0, 1/2, 1] [24, -1, 24] = [2/5, 3/5]"
  by (simp add: three_knot_roots_def quadratic_roots_def sqrt_400)

lemma roots_bump: "three_knot_roots [0, 1/2, 1] [-3, 1, -3] = [1/4, 3/4]"
  by (simp add: three_knot_roots_def quadratic_roots_def sqrt_64)

lemma roots_small_bump:
  "three_knot_roots [0, 1/2, 1] [- (3/10), 1/10, - (3/10)] = [1/4, 3/4]"
  by (simp add: three_knot_roots_def quadratic_roots_def sqrt_16_25)

text \<open>
  C2, as the code has it. When the deviation \<open>q - qmin\<close> is not positive everywhere
  and its first sample exceeds \<open>qmin\<close> itself (the guard compares the deviation at the
  axis with \<open>qmin\<close>, not with zero), the solver returns \<open>(False, None, None)\<close>.
\<close>

theorem hollow_abort:
  assumes "qvals \<noteq> []" "\<exists>q \<in> set qvals. q - qmin \<le> 0" "hd qvals - qmin > qmin"
  shows "solve_for_psi_crossing spline_roots psi qvals qmin = Inr (False, None, None)"
  using assms by (simp add: solve_for_psi_crossing_def Let_def hd_conv_nth)

theorem hollow_abort_witness:
  "solve_for_psi_crossing three_knot_roots [0, 1] [5/2, 1/2] 1 = Inr (False, None, None)"
proof -
  have "\<exists>q \<in> set [5/2, 1/2 :: real]. q - 1 \<le> 0"
    by (rule bexI [of _ "1/2"]) simp_all
  then show ?thesis
    using hollow_abort [of "[5/2, 1/2]" 1 three_knot_roots "[0, 1]"] by simp
qed

text \<open>
  C2, as stated, fails: with target 1 and \<open>q = [3/2, 1, 1/2]\<close> the deviation is
  positive at the axis and negative at the edge, yet the solver finds the crossing at
  the middle grid point.
\<close>

theorem hollow_abort_counterexample:
  "(3/2 :: real) - 1 > 0 \<and> (1/2 :: real) - 1 \<le> 0
   \<and> solve_for_psi_crossing three_knot_roots [0, 1/2, 1] [3/2, 1, 1/2] 1
       = Inr (True, Some (1/2), Some 1)"
  by (simp add: solve_for_psi_crossing_def)

text \<open>
  The two-root branch where its assertion holds. On an input that reaches the root finder,
  yields exactly two roots inside \<open>(0,1)\<close> and has a positive last deviation, the solver
  fails exactly when the second root exceeds the first by more than \<open>0.3\<close> and
  \<open>min q < qmin - 0.1\<close>; otherwise it returns the larger root.
\<close>

lemma two_root_branch_asserted:
  assumes "reaches_root_finding psi qvals qmin"
    and "interior_roots spline_roots psi (map (\<lambda>q. q - qmin) qvals) = [r0, r1]"
    and "last qvals - qmin > 0"
  shows "solve_for_psi_crossing spline_roots psi qvals qmin =
     (if r1 - r0 > 3 / 10 \<and> py_min qvals < qmin - 1 / 10 then Inr (False, None, None)
      else Inr (True, Some (max r0 r1),
                Some (argmin (map abs (map (\<lambda>q. q - qmin) qvals)))))"
proof -
  from assms(1) have ne: "qvals \<noteq> []" and len: "0 < length qvals"
    by (auto simp: reaches_root_finding_def)
  show ?thesis
    using assms len
    by (simp add: solve_for_psi_crossing_def reaches_root_finding_def Let_def py_max_def
        last_map ne)
qed

lemma two_root_branch_asserted_examples:
  "solve_for_psi_crossing three_knot_roots [0, 1/2, 1] [7, 3, 7] 4 = Inr (False, None, None)
   \<and> solve_for_psi_crossing three_knot_roots [0, 1/2, 1] [54, 29, 54] 30
       = Inr (True, Some (3/5), Some 1)"
  using two_root_branch_asserted [of "[0, 1/2, 1]" "[7, 3, 7]" 4 three_knot_roots "1/4" "3/4"]
    two_root_branch_asserted [of "[0, 1/2, 1]" "[54, 29, 54]" 30 three_knot_roots "2/5" "3/5"]
  by (simp add: reaches_root_finding_def CubicSpline_ok_def interior_roots_def
      roots_dip_wide roots_dip_narrow py_min_def)

text \<open>
  C3. The two-root policy is not what the code does on every input with two interior roots:
  the branch breaks its own assertion. With target 1 and \<open>q = [7/10, 11/10, 7/10]\<close> on the
  grid \<open>[0, 1/2, 1]\<close> the root finder is reached and finds the two roots \<open>1/4\<close> and
  \<open>3/4\<close>; their distance \<open>1/2\<close> exceeds \<open>0.3\<close> but \<open>min q = 0.7\<close> is not below
  \<open>0.9\<close>, so the policy asks for \<open>found = True\<close> at \<open>3/4\<close>. The solver returns neither
  \<open>found = False\<close> nor \<open>found = True\<close>: the last deviation is \<open>-3/10\<close> and the
  assertion raises.
\<close>

theorem two_root_policy_assertion_raises:
  "reaches_root_finding [0, 1/2, 1] [7/10, 11/10, 7/10] 1
   \<and> interior_roots three_knot_roots [0, 1/2, 1] [7/10 - 1, 11/10 - 1, 7/10 - 1]
       = [1/4, 3/4]
   \<and> solve_for_psi_crossing three_knot_roots [0, 1/2, 1] [7/10, 11/10, 7/10] 1
       = Inl AssertionError"
  by (simp add: solve_for_psi_crossing_def reaches_root_finding_def CubicSpline_ok_def
      interior_roots_def roots_small_bump)

text \<open>
  C9. The solver is not total: with target 4 and \<open>q = [1, 5, 1]\<close> on the grid
  \<open>[0, 1/2, 1]\<close> the spline has the two interior roots \<open>1/4\<close> and \<open>3/4\<close>, the last
  deviation is \<open>-3\<close>, and the assertion of the two-root branch raises.
\<close>

theorem solve_for_psi_crossing_assertion_fails:
  "solve_for_psi_crossing three_knot_roots [0, 1/2, 1] [1, 5, 1] 4 = Inl AssertionError"
  by (simp add: solve_for_psi_crossing_def CubicSpline_ok_def interior_roots_def roots_bump)

section \<open>Properties of the current rescaler\<close>

lemma two_knot_unit_current:
  "cross_section_surf_int two_knot_integrate [1, 1] [1, 2] = Inr (2 * pi * (3 / 2))"
  by (simp add: cross_section_surf_int_def broadcast2_def CubicSpline_ok_def
      two_knot_integrate_def py_min_def py_max_def)

lemma two_knot_cancelling_current:
  "cross_section_surf_int two_knot_integrate [2, - 1] [1, 2] = Inr 0"
  by (simp add: cross_section_surf_int_def broadcast2_def CubicSpline_ok_def
      two_knot_integrate_def py_min_def py_max_def)

text \<open>
  C4. With a nonzero flux-surface integral \<open>I_current\<close> of the profile, \<^verbatim>\<open>rescale_Jtor\<close> returns every sample multiplied by the one
  factor \<open>k = Ip_target / I_current\<close>, and \<open>k\<close>.
\<close>

theorem rescale_uniform_factor:
  assumes "cross_section_surf_int spline_integrate jtor_total a_avgs = Inr I_current"
    and "I_current \<noteq> 0"
  shows "rescale_Jtor spline_integrate jtor_total Ip_target a_avgs =
     Inr (map (\<lambda>j. Fin (j * (Ip_target / I_current))) jtor_total,
          Fin (Ip_target / I_current))"
  using assms
  by (cases "broadcast2 (*) a_avgs jtor_total")
    (auto simp: rescale_Jtor_def cross_section_surf_int_def Let_def split: if_splits)

theorem rescale_uniform_factor_witness:
  "rescale_Jtor two_knot_integrate [1, 1] 6 [1, 2] =
     Inr ([Fin (6 / (2 * pi * (3 / 2))), Fin (6 / (2 * pi * (3 / 2)))],
          Fin (6 / (2 * pi * (3 / 2))))"
  using rescale_uniform_factor [of two_knot_integrate "[1, 1]" "[1, 2]" "2 * pi * (3 / 2)" 6]
  by (simp add: two_knot_unit_current)

text \<open>
  C5, as the code has it. When the flux-surface integral is exactly zero,
  \<^verbatim>\<open>rescale_Jtor\<close> raises nothing: the factor is an infinity (not-a-number for a
  zero target) and the profile is returned multiplied by it.
\<close>

theorem rescale_zero_current:
  assumes "cross_section_surf_int spline_integrate jtor_total a_avgs = Inr 0"
  shows "rescale_Jtor spline_integrate jtor_total Ip_target a_avgs =
     Inr (map (\<lambda>j. np_mul (Fin j) (signed_inf Ip_target)) jtor_total, signed_inf Ip_target)"
  using assms
  by (cases "broadcast2 (*) a_avgs jtor_total")
    (auto simp: rescale_Jtor_def cross_section_surf_int_def Let_def split: if_splits)

theorem rescale_zero_current_witness:
  "rescale_Jtor two_knot_integrate [2, - 1] 5 [1, 2] = Inr ([PInf, NInf], PInf)"
  using rescale_zero_current [of two_knot_integrate "[2, - 1]" "[1, 2]" 5]
  by (simp add: two_knot_cancelling_current signed_inf_def)

text \<open>
  C5, as stated, fails: the all-zero profile on the grid \<open>[0, 1]\<close> has integral zero,
  and \<^verbatim>\<open>rescale_Jtor\<close> returns a pair instead of raising a division error.
\<close>

theorem rescale_zero_current_counterexample:
  "cross_section_surf_int two_knot_integrate [0, 0] [0, 1] = Inr 0
   \<and> rescale_Jtor two_knot_integrate [0, 0] 1 [0, 1] = Inr ([NaN, NaN], PInf)"
  by (simp add: rescale_Jtor_def cross_section_surf_int_def broadcast2_def CubicSpline_ok_def
      two_knot_integrate_def py_min_def py_max_def signed_inf_def)

section \<open>Properties of the drivers\<close>

subsection \<open>Edge value and not-a-number cleaning\<close>

lemma nan_to_num1_not_NaN: "nan_to_num1 v \<noteq> NaN" "NaN \<noteq> nan_to_num1 v"
  by (cases v; simp)+

lemma set_last_zero_Inr:
  "set_last_zero ys = Inr zs \<Longrightarrow> zs \<noteq> [] \<and> last zs = Fin 0"
  by (auto simp: set_last_zero_def last_list_update split: if_splits)

lemma nan_to_num_clean:
  assumes "zs \<noteq> []" "last zs = Fin 0"
  shows "nan_to_num zs \<noteq> [] \<and> last (nan_to_num zs) = Fin 0 \<and> NaN \<notin> set (nan_to_num zs)"
  using assms by (auto simp: nan_to_num_def last_map nan_to_num1_not_NaN)

lemma enforce_edge_and_clean_Inr:
  assumes "enforce_edge_and_clean pp_prof ffp_prof = Inr (pp, ffp)"
  shows "edge_zero_no_nan pp \<and> edge_zero_no_nan ffp"
proof (cases "set_last_zero (prof_y pp_prof)")
  case (Inl e)
  with assms show ?thesis by (simp add: enforce_edge_and_clean_def)
next
  case py: (Inr py)
  show ?thesis
  proof (cases "set_last_zero (prof_y ffp_prof)")
    case (Inl e)
    with assms py show ?thesis by (simp add: enforce_edge_and_clean_def)
  next
    case fy: (Inr fy)
    from assms py fy have pp: "prof_y pp = nan_to_num py"
      and ffp: "prof_y ffp = nan_to_num fy"
      by (auto simp: enforce_edge_and_clean_def)
    from set_last_zero_Inr [OF py] have "py \<noteq> []" "last py = Fin 0" by simp_all
    note a = nan_to_num_clean [OF this]
    from set_last_zero_Inr [OF fy] have "fy \<noteq> []" "last fy = Fin 0" by simp_all
    note b = nan_to_num_clean [OF this]
    show ?thesis
      unfolding edge_zero_no_nan_def pp ffp using a b by blast
  qed
qed

lemma all_handed_clean_snoc:
  "all_handed_clean r \<Longrightarrow> edge_zero_no_nan pp \<Longrightarrow> edge_zero_no_nan ffp
   \<Longrightarrow> handed r' = handed r @ [(ffp, pp)] \<Longrightarrow> all_handed_clean r'"
  by (auto simp: all_handed_clean_def)

lemma all_handed_clean_same:
  "all_handed_clean r \<Longrightarrow> handed r' = handed r \<Longrightarrow> all_handed_clean r'"
  by (auto simp: all_handed_clean_def)

lemma bootstrap_iteration_cases:
  obtains (raise) e where
      "pit False (rescale_ind_Jtor_by_ftr r) (iteration_arg plot (iter_n r)) (solver r)
        = Inl e"
      "bootstrap_iteration api pit plot mx r
        = Inl (Raised e, r\<lparr>loop_runs := loop_runs r + 1\<rparr>)"
  | (edge) pp0 ffp0 e s1 where
      "pit False (rescale_ind_Jtor_by_ftr r) (iteration_arg plot (iter_n r)) (solver r)
        = Inr ((pp0, ffp0), s1)"
      "enforce_edge_and_clean pp0 ffp0 = Inl e"
      "bootstrap_iteration api pit plot mx r
        = Inl (Raised e, r\<lparr>loop_runs := loop_runs r + 1, solver := s1\<rparr>)"
  | (solve) pp0 ffp0 s1 pp ffp fl s3 where
      "pit False (rescale_ind_Jtor_by_ftr r) (iteration_arg plot (iter_n r)) (solver r)
        = Inr ((pp0, ffp0), s1)"
      "enforce_edge_and_clean pp0 ffp0 = Inr (pp, ffp)"
      "api_solve api (api_set_profiles api ffp pp s1) = (fl, s3)"
      "bootstrap_iteration api pit plot mx r =
         (let r1 = r\<lparr>loop_runs := loop_runs r + 1, solver := s3, iter_n := iter_n r + 1,
             flag := fl, rescale_ind_Jtor_by_ftr := False,
             handed := handed r @ [(ffp, pp)]\<rparr>
          in if fl < 0 then Inl (Solve_failed, r1)
             else if iter_n r + 1 > mx then Inl (Max_iterations_break, r1)
             else Inr r1)"
proof (cases "pit False (rescale_ind_Jtor_by_ftr r) (iteration_arg plot (iter_n r)) (solver r)")
  case (Inl e)
  then have "bootstrap_iteration api pit plot mx r
      = Inl (Raised e, r\<lparr>loop_runs := loop_runs r + 1\<rparr>)"
    by (simp add: bootstrap_iteration_def Let_def)
  with Inl show ?thesis by (rule raise)
next
  case (Inr x)
  obtain pp0 ffp0 s1 where x: "x = ((pp0, ffp0), s1)"
    by (metis surj_pair)
  note step = Inr [unfolded x]
  show ?thesis
  proof (cases "enforce_edge_and_clean pp0 ffp0")
    case (Inl e)
    with step have "bootstrap_iteration api pit plot mx r
        = Inl (Raised e, r\<lparr>loop_runs := loop_runs r + 1, solver := s1\<rparr>)"
      by (simp add: bootstrap_iteration_def Let_def)
    with step Inl show ?thesis by (rule edge)
  next
    case (Inr y)
    obtain pp ffp where y: "y = (pp, ffp)" by (cases y)
    note clean = Inr [unfolded y]
    obtain fl s3 where sol: "api_solve api (api_set_profiles api ffp pp s1) = (fl, s3)"
      by (cases "api_solve api (api_set_profiles api ffp pp s1)")
    from step clean sol have "bootstrap_iteration api pit plot mx r =
         (let r1 = r\<lparr>loop_runs := loop_runs r + 1, solver := s3, iter_n := iter_n r + 1,
             flag := fl, rescale_ind_Jtor_by_ftr := False,
             handed := handed r @ [(ffp, pp)]\<rparr>
          in if fl < 0 then Inl (Solve_failed, r1)
             else if iter_n r + 1 > mx then Inl (Max_iterations_break, r1)
             else Inr r1)"
      by (simp add: bootstrap_iteration_def Let_def)
    with step clean sol show ?thesis by (rule solve)
  qed
qed

lemma bootstrap_loop_done:
  "\<not> iter_n r \<le> mx \<Longrightarrow>
   bootstrap_loop api pit plot mx r =
     (if loop_runs r = 0 then (Raised UnboundLocalError, r) else (Loop_exhausted, r))"
  by (subst bootstrap_loop.simps) simp

lemma bootstrap_loop_exit:
  "iter_n r \<le> mx \<Longrightarrow> bootstrap_iteration api pit plot mx r = Inl res \<Longrightarrow>
   bootstrap_loop api pit plot mx r = res"
  by (subst bootstrap_loop.simps) simp

lemma bootstrap_loop_continue:
  "iter_n r \<le> mx \<Longrightarrow> bootstrap_iteration api pit plot mx r = Inr r' \<Longrightarrow>
   bootstrap_loop api pit plot mx r = bootstrap_loop api pit plot mx r'"
  by (subst bootstrap_loop.simps) simp

lemma bootstrap_iteration_clean:
  assumes "all_handed_clean r"
  shows "case bootstrap_iteration api pit plot mx r of
           Inl res \<Rightarrow> all_handed_clean (snd res) | Inr r' \<Rightarrow> all_handed_clean r'"
proof (cases rule: bootstrap_iteration_cases [where api = api and pit = pit and plot = plot and mx = mx and r = r])
  case (raise e)
  with assms show ?thesis by (simp add: all_handed_clean_def)
next
  case (edge pp0 ffp0 e s1)
  with assms show ?thesis by (simp add: all_handed_clean_def)
next
  case (solve pp0 ffp0 s1 pp ffp fl s3)
  from enforce_edge_and_clean_Inr [OF solve(2)] assms show ?thesis
    by (simp add: solve(4) Let_def all_handed_clean_def)
qed

lemma bootstrap_loop_clean:
  "all_handed_clean r \<Longrightarrow> all_handed_clean (snd (bootstrap_loop api pit plot mx r))"
proof (induction api pit plot mx r rule: bootstrap_loop.induct)
  case (1 api pit plot mx r)
  show ?case
  proof (cases "iter_n r \<le> mx")
    case True
    note it = bootstrap_iteration_clean [OF "1.prems", where api = api and pit = pit and plot = plot and mx = mx]
    show ?thesis
    proof (cases "bootstrap_iteration api pit plot mx r")
      case (Inl res)
      with it show ?thesis by (simp add: bootstrap_loop_exit [OF True Inl])
    next
      case (Inr r')
      with it have "all_handed_clean r'" by simp
      from "1.IH" [OF True Inr this] show ?thesis
        by (simp add: bootstrap_loop_continue [OF True Inr])
    qed
  next
    case False
    with "1.prems" show ?thesis by (simp add: bootstrap_loop_done)
  qed
qed

lemma bootstrap_iteration_never_raises:
  "bootstrap_iteration api pit plot mx r \<noteq> Inl (Not_converged_raise, r')"
  by (cases rule: bootstrap_iteration_cases [where api = api and pit = pit and plot = plot and mx = mx and r = r])
    (simp_all add: Let_def)

lemma bootstrap_loop_never_raises:
  "fst (bootstrap_loop api pit plot mx r) \<noteq> Not_converged_raise"
proof (induction api pit plot mx r rule: bootstrap_loop.induct)
  case (1 api pit plot mx r)
  show ?case
  proof (cases "iter_n r \<le> mx")
    case True
    show ?thesis
    proof (cases "bootstrap_iteration api pit plot mx r")
      case (Inl res)
      with bootstrap_iteration_never_raises [where api = api and pit = pit and plot = plot and mx = mx and r = r and r' = "snd res"]
      show ?thesis by (cases res) (simp add: bootstrap_loop_exit [OF True Inl])
    next
      case (Inr r')
      from "1.IH" [OF True Inr] show ?thesis
        by (simp add: bootstrap_loop_continue [OF True Inr])
    qed
  next
    case False
    then show ?thesis by (simp add: bootstrap_loop_done)
  qed
qed

lemma bootstrap_iteration_runs:
  "case bootstrap_iteration api pit plot mx r of
     Inl res \<Rightarrow> loop_runs (snd res) = loop_runs r + 1
   | Inr r' \<Rightarrow> loop_runs r' = loop_runs r + 1 \<and> iter_n r' = iter_n r + 1"
  by (cases rule: bootstrap_iteration_cases [where api = api and pit = pit and plot = plot and mx = mx and r = r])
    (simp_all add: Let_def)

lemma bootstrap_loop_runs_bound:
  "loop_runs (snd (bootstrap_loop api pit plot mx r))
     \<le> loop_runs r + nat (mx + 1 - iter_n r)"
proof (induction api pit plot mx r rule: bootstrap_loop.induct)
  case (1 api pit plot mx r)
  show ?case
  proof (cases "iter_n r \<le> mx")
    case True
    note it = bootstrap_iteration_runs [where api = api and pit = pit and plot = plot and mx = mx and r = r]
    show ?thesis
    proof (cases "bootstrap_iteration api pit plot mx r")
      case (Inl res)
      with it True show ?thesis by (simp add: bootstrap_loop_exit [OF True Inl])
    next
      case (Inr r')
      with it have r': "loop_runs r' = loop_runs r + 1" "iter_n r' = iter_n r + 1"
        by simp_all
      from "1.IH" [OF True Inr] True show ?thesis
        by (simp add: bootstrap_loop_continue [OF True Inr] r')
    qed
  next
    case False
    then show ?thesis by (simp add: bootstrap_loop_done)
  qed
qed

lemma enforce_edge_and_clean_nonempty:
  "prof_y pp \<noteq> [] \<Longrightarrow> prof_y ffp \<noteq> [] \<Longrightarrow> \<exists>y. enforce_edge_and_clean pp ffp = Inr y"
  by (simp add: enforce_edge_and_clean_def set_last_zero_def)

lemma step_succeedsD:
  "step_succeeds pit \<Longrightarrow>
   \<exists>pp ffp s'. pit il rs it s = Inr ((pp, ffp), s') \<and> prof_y pp \<noteq> [] \<and> prof_y ffp \<noteq> []"
  unfolding step_succeeds_def by (elim allE)

lemma bootstrap_iteration_success:
  assumes "step_succeeds pit" "\<forall>s. 0 \<le> fst (api_solve api s)"
  shows "\<exists>r1. iter_n r1 = iter_n r + 1 \<and> loop_runs r1 = loop_runs r + 1
     \<and> bootstrap_iteration api pit plot mx r =
         (if iter_n r + 1 > mx then Inl (Max_iterations_break, r1) else Inr r1)"
proof -
  from step_succeedsD [OF assms(1)] obtain pp0 ffp0 s1 where
    step: "pit False (rescale_ind_Jtor_by_ftr r) (iteration_arg plot (iter_n r)) (solver r)
      = Inr ((pp0, ffp0), s1)"
    and ne: "prof_y pp0 \<noteq> []" "prof_y ffp0 \<noteq> []"
    by blast
  from enforce_edge_and_clean_nonempty [OF ne] obtain y where
    "enforce_edge_and_clean pp0 ffp0 = Inr y" by blast
  then obtain pp ffp where clean: "enforce_edge_and_clean pp0 ffp0 = Inr (pp, ffp)"
    by (cases y) simp
  obtain fl s3 where sol: "api_solve api (api_set_profiles api ffp pp s1) = (fl, s3)"
    by (cases "api_solve api (api_set_profiles api ffp pp s1)")
  from assms(2) have "0 \<le> fst (api_solve api (api_set_profiles api ffp pp s1))" by (rule spec)
  with sol have fl: "\<not> fl < 0" by simp
  let ?r1 = "r\<lparr>loop_runs := loop_runs r + 1, solver := s3, iter_n := iter_n r + 1,
             flag := fl, rescale_ind_Jtor_by_ftr := False,
             handed := handed r @ [(ffp, pp)]\<rparr>"
  have "bootstrap_iteration api pit plot mx r =
         (if iter_n r + 1 > mx then Inl (Max_iterations_break, ?r1) else Inr ?r1)"
    using step clean sol fl by (simp add: bootstrap_iteration_def Let_def)
  moreover have "iter_n ?r1 = iter_n r + 1" "loop_runs ?r1 = loop_runs r + 1"
    by simp_all
  ultimately show ?thesis by (intro exI [of _ ?r1] conjI)
qed

lemma bootstrap_loop_success:
  "step_succeeds pit \<Longrightarrow> \<forall>s. 0 \<le> fst (api_solve api s) \<Longrightarrow> iter_n r \<le> mx \<Longrightarrow>
     fst (bootstrap_loop api pit plot mx r) = Max_iterations_break
     \<and> iter_n (snd (bootstrap_loop api pit plot mx r)) = mx + 1
     \<and> int (loop_runs (snd (bootstrap_loop api pit plot mx r)))
         = int (loop_runs r) + (mx + 1 - iter_n r)"
proof (induction api pit plot mx r rule: bootstrap_loop.induct)
  case (1 api pit plot mx r)
  note ok = "1.prems"(1,2) and le0 = "1.prems"(3)
  from bootstrap_iteration_success [OF ok, where r = r and plot = plot and mx = mx]
  obtain r1 where
    r1: "iter_n r1 = iter_n r + 1" "loop_runs r1 = loop_runs r + 1"
    and it: "bootstrap_iteration api pit plot mx r =
         (if iter_n r + 1 > mx then Inl (Max_iterations_break, r1) else Inr r1)"
    by blast
  show ?case
  proof (cases "iter_n r + 1 > mx")
    case True
    with it have e: "bootstrap_iteration api pit plot mx r = Inl (Max_iterations_break, r1)"
      by simp
    from True le0 have "iter_n r = mx" by simp
    with r1 show ?thesis
      unfolding bootstrap_loop_exit [OF le0 e] by simp
  next
    case False
    with it have c: "bootstrap_iteration api pit plot mx r = Inr r1" by simp
    from False r1 have le: "iter_n r1 \<le> mx" by simp
    from "1.IH" [OF le0 c ok le] show ?thesis
      unfolding bootstrap_loop_continue [OF le0 c] r1 by simp
  qed
qed

lemma all_handed_cleanD:
  "all_handed_clean r \<Longrightarrow> (ffp, pp) \<in> set (handed r)
   \<Longrightarrow> edge_zero_no_nan pp \<and> edge_zero_no_nan ffp"
  by (auto simp: all_handed_clean_def)

lemma initial_run_clean: "all_handed_clean (initial_run s0 rescale)"
  by (simp add: all_handed_clean_def initial_run_def)

lemma bootstrap_initialize_clean:
  assumes "all_handed_clean r"
  shows "case bootstrap_initialize api pit r of
           Inl res \<Rightarrow> all_handed_clean (snd res) | Inr r' \<Rightarrow> all_handed_clean r'"
proof (cases "pit True (rescale_ind_Jtor_by_ftr r) (- 1) (solver r)")
  case (Inl e)
  with assms show ?thesis by (simp add: bootstrap_initialize_def)
next
  case (Inr x)
  obtain a s1 where x: "x = (a, s1)" by (cases x)
  obtain pp0 ffp0 where a: "a = (pp0, ffp0)" by (cases a)
  note step = Inr [unfolded x a]
  show ?thesis
  proof (cases "enforce_edge_and_clean pp0 ffp0")
    case (Inl e)
    with step assms show ?thesis
      by (simp add: bootstrap_initialize_def all_handed_clean_def)
  next
    case (Inr y)
    obtain pp ffp where y: "y = (pp, ffp)" by (cases y)
    note clean = Inr [unfolded y]
    from enforce_edge_and_clean_Inr [OF clean] assms step clean show ?thesis
      by (simp add: bootstrap_initialize_def Let_def all_handed_clean_def)
  qed
qed

lemma solve_with_bootstrap_clean:
  "all_handed_clean (snd (solve_with_bootstrap api pit plot mx rescale init s0))"
proof (cases init)
  case False
  then show ?thesis
    by (simp add: solve_with_bootstrap_def bootstrap_loop_clean initial_run_clean)
next
  case True
  note i = bootstrap_initialize_clean [where r = "initial_run s0 rescale"
      and api = api and pit = pit, OF initial_run_clean]
  show ?thesis
  proof (cases "bootstrap_initialize api pit (initial_run s0 rescale)")
    case (Inl res)
    with i True show ?thesis by (simp add: solve_with_bootstrap_def)
  next
    case (Inr r)
    with i have "all_handed_clean r" by simp
    then have "all_handed_clean (r\<lparr>iter_n := 0, flag := - 1\<rparr>)"
      by (rule all_handed_clean_same) simp
    then have "all_handed_clean (snd (bootstrap_loop api pit plot mx (r\<lparr>iter_n := 0, flag := - 1\<rparr>)))"
      by (rule bootstrap_loop_clean)
    with Inr True show ?thesis by (simp add: solve_with_bootstrap_def)
  qed
qed

lemma dynamo_iteration_clean:
  assumes "all_handed_clean r"
  shows "case dynamo_iteration api pit mx r of
           Inl res \<Rightarrow> all_handed_clean (snd res) | Inr r' \<Rightarrow> all_handed_clean r'"
proof (cases "pit False (rescale_ind_Jtor_by_ftr r) (iter_n r) (solver r)")
  case (Inl e)
  with assms show ?thesis by (simp add: dynamo_iteration_def all_handed_clean_def)
next
  case (Inr x)
  obtain a s1 where x: "x = (a, s1)" by (cases x)
  obtain pp0 b where a: "a = (pp0, b)" by (cases a)
  obtain ffp0 q0 where b: "b = (ffp0, q0)" by (cases b)
  note step = Inr [unfolded x a b]
  show ?thesis
  proof (cases "enforce_edge_and_clean pp0 ffp0")
    case (Inl e)
    with step assms show ?thesis
      by (simp add: dynamo_iteration_def all_handed_clean_def)
  next
    case (Inr y)
    obtain pp ffp where y: "y = (pp, ffp)" by (cases y)
    note clean = Inr [unfolded y]
    from enforce_edge_and_clean_Inr [OF clean] assms step clean show ?thesis
      by (simp add: dynamo_iteration_def Let_def all_handed_clean_def)
  qed
qed

lemma dynamo_loop_done:
  "\<not> iter_n r \<le> mx \<Longrightarrow>
   dynamo_loop api pit mx r =
     (if loop_runs r = 0 then (Raised UnboundLocalError, r) else (Loop_exhausted, r))"
  by (subst dynamo_loop.simps) simp

lemma dynamo_loop_exit:
  "iter_n r \<le> mx \<Longrightarrow> dynamo_iteration api pit mx r = Inl res \<Longrightarrow>
   dynamo_loop api pit mx r = res"
  by (subst dynamo_loop.simps) simp

lemma dynamo_loop_continue:
  "iter_n r \<le> mx \<Longrightarrow> dynamo_iteration api pit mx r = Inr r' \<Longrightarrow>
   dynamo_loop api pit mx r = dynamo_loop api pit mx r'"
  by (subst dynamo_loop.simps) simp

lemma dynamo_loop_clean:
  "all_handed_clean r \<Longrightarrow> all_handed_clean (snd (dynamo_loop api pit mx r))"
proof (induction api pit mx r rule: dynamo_loop.induct)
  case (1 api pit mx r)
  show ?case
  proof (cases "iter_n r \<le> mx")
    case True
    note it = dynamo_iteration_clean [OF "1.prems", where api = api and pit = pit and mx = mx]
    show ?thesis
    proof (cases "dynamo_iteration api pit mx r")
      case (Inl res)
      with it show ?thesis by (simp add: dynamo_loop_exit [OF True Inl])
    next
      case (Inr r')
      with it have "all_handed_clean r'" by simp
      from "1.IH" [OF True Inr this] show ?thesis
        by (simp add: dynamo_loop_continue [OF True Inr])
    qed
  next
    case False
    with "1.prems" show ?thesis by (simp add: dynamo_loop_done)
  qed
qed

lemma dynamo_initialize_clean:
  assumes "all_handed_clean r"
  shows "case dynamo_initialize api pit r of
           Inl res \<Rightarrow> all_handed_clean (snd res) | Inr r' \<Rightarrow> all_handed_clean r'"
proof (cases "pit True (rescale_ind_Jtor_by_ftr r) (- 1) (solver r)")
  case (Inl e)
  with assms show ?thesis by (simp add: dynamo_initialize_def)
next
  case (Inr x)
  obtain a s1 where x: "x = (a, s1)" by (cases x)
  obtain pp0 b where a: "a = (pp0, b)" by (cases a)
  obtain ffp0 q0 where b: "b = (ffp0, q0)" by (cases b)
  note step = Inr [unfolded x a b]
  show ?thesis
  proof (cases "enforce_edge_and_clean pp0 ffp0")
    case (Inl e)
    with step assms show ?thesis
      by (simp add: dynamo_initialize_def all_handed_clean_def)
  next
    case (Inr y)
    obtain pp ffp where y: "y = (pp, ffp)" by (cases y)
    note clean = Inr [unfolded y]
    from enforce_edge_and_clean_Inr [OF clean] assms step clean show ?thesis
      by (simp add: dynamo_initialize_def Let_def all_handed_clean_def)
  qed
qed

lemma basic_dynamo_w_bootstrap_clean:
  "all_handed_clean (snd (basic_dynamo_w_bootstrap api pit mx rescale init s0))"
proof (cases init)
  case False
  then show ?thesis
    by (simp add: basic_dynamo_w_bootstrap_def dynamo_loop_clean initial_run_clean)
next
  case True
  note i = dynamo_initialize_clean [where r = "initial_run s0 rescale"
      and api = api and pit = pit, OF initial_run_clean]
  show ?thesis
  proof (cases "dynamo_initialize api pit (initial_run s0 rescale)")
    case (Inl res)
    with i True show ?thesis by (simp add: basic_dynamo_w_bootstrap_def)
  next
    case (Inr r)
    with i have "all_handed_clean r" by simp
    then have "all_handed_clean (r\<lparr>iter_n := 0, flag := - 1\<rparr>)"
      by (rule all_handed_clean_same) simp
    then have "all_handed_clean (snd (dynamo_loop api pit mx (r\<lparr>iter_n := 0, flag := - 1\<rparr>)))"
      by (rule dynamo_loop_clean)
    with Inr True show ?thesis by (simp add: basic_dynamo_w_bootstrap_def)
  qed
qed

text \<open>
  C6. In both drivers, every pair of profiles handed to \<^verbatim>\<open>set_profiles\<close>, in the
  initialisation as well as in the loop, has its last sample equal to exactly \<open>0\<close> and
  contains no not-a-number sample, whatever \<^verbatim>\<open>profile_iteration\<close> and the solver do.
\<close>

theorem handed_profiles_clean:
  assumes "(ffp, pp) \<in> set (handed (snd (solve_with_bootstrap api pit plot mx rescale init s0)))
     \<or> (ffp, pp) \<in> set (handed (snd (basic_dynamo_w_bootstrap api dpit mx' rescale' init' s0')))"
  shows "edge_zero_no_nan pp \<and> edge_zero_no_nan ffp"
  using assms
proof
  assume "(ffp, pp) \<in> set (handed (snd (solve_with_bootstrap api pit plot mx rescale init s0)))"
  with solve_with_bootstrap_clean show ?thesis by (rule all_handed_cleanD)
next
  assume "(ffp, pp) \<in> set (handed (snd (basic_dynamo_w_bootstrap api dpit mx' rescale' init' s0')))"
  with basic_dynamo_w_bootstrap_clean show ?thesis by (rule all_handed_cleanD)
qed

text \<open>
  On the explicit collaborators both drivers hand over the cleaned profiles three times: the
  not-a-number samples have become \<open>0\<close>, the infinity the largest double, the edge \<open>0\<close>.
\<close>

lemma demo_plain_run:
  "handed (snd (solve_with_bootstrap (demo_api 1) demo_step False 1 True True 0))
     = [(demo_clean_ffp, demo_clean_pp), (demo_clean_ffp, demo_clean_pp),
        (demo_clean_ffp, demo_clean_pp)]"
  by (simp add: solve_with_bootstrap_def bootstrap_initialize_def initial_run_def demo_step_def
      demo_api_def enforce_edge_and_clean_def set_last_zero_def demo_pp_def demo_ffp_def
      demo_clean_pp_def demo_clean_ffp_def nan_to_num_def
      bootstrap_iteration_def iteration_arg_def Let_def bootstrap_loop.simps)

lemma demo_dynamo_run:
  "handed (snd (basic_dynamo_w_bootstrap (demo_api 1) demo_dynamo_step 1 True True 0))
     = [(demo_clean_ffp, demo_clean_pp), (demo_clean_ffp, demo_clean_pp),
        (demo_clean_ffp, demo_clean_pp)]"
  by (simp add: basic_dynamo_w_bootstrap_def dynamo_initialize_def initial_run_def
      demo_dynamo_step_def
      demo_api_def enforce_edge_and_clean_def set_last_zero_def demo_pp_def demo_ffp_def
      demo_clean_pp_def demo_clean_ffp_def nan_to_num_def
      dynamo_iteration_def Let_def dynamo_loop.simps)

theorem handed_profiles_clean_witness:
  "(demo_clean_ffp, demo_clean_pp)
      \<in> set (handed (snd (solve_with_bootstrap (demo_api 1) demo_step False 1 True True 0)))
   \<and> (demo_clean_ffp, demo_clean_pp)
      \<in> set (handed (snd (basic_dynamo_w_bootstrap (demo_api 1) demo_dynamo_step 1 True True 0)))
   \<and> edge_zero_no_nan demo_clean_pp \<and> edge_zero_no_nan demo_clean_ffp"
proof -
  have a: "(demo_clean_ffp, demo_clean_pp)
      \<in> set (handed (snd (solve_with_bootstrap (demo_api 1) demo_step False 1 True True 0)))"
    by (simp add: demo_plain_run)
  have b: "(demo_clean_ffp, demo_clean_pp)
      \<in> set (handed (snd (basic_dynamo_w_bootstrap (demo_api 1) demo_dynamo_step 1 True True 0)))"
    by (simp add: demo_dynamo_run)
  from handed_profiles_clean [OF disjI1, OF a] a b show ?thesis by simp
qed

lemma bootstrap_iteration_nonneg:
  assumes "\<forall>s. 0 \<le> fst (api_solve api s)"
  shows "(\<exists>e r'. bootstrap_iteration api pit plot mx r = Inl (Raised e, r'))
     \<or> (\<exists>r1. iter_n r1 = iter_n r + 1
           \<and> bootstrap_iteration api pit plot mx r =
               (if iter_n r + 1 > mx then Inl (Max_iterations_break, r1) else Inr r1))"
proof (cases rule: bootstrap_iteration_cases
    [where api = api and pit = pit and plot = plot and mx = mx and r = r])
  case (raise e)
  then show ?thesis by blast
next
  case (edge pp0 ffp0 e s1)
  then show ?thesis by blast
next
  case (solve pp0 ffp0 s1 pp ffp fl s3)
  from assms have "0 \<le> fst (api_solve api (api_set_profiles api ffp pp s1))" by (rule spec)
  with solve(3) have fl: "\<not> fl < 0" by simp
  let ?r1 = "r\<lparr>loop_runs := loop_runs r + 1, solver := s3, iter_n := iter_n r + 1,
             flag := fl, rescale_ind_Jtor_by_ftr := False,
             handed := handed r @ [(ffp, pp)]\<rparr>"
  from fl have "bootstrap_iteration api pit plot mx r =
         (if iter_n r + 1 > mx then Inl (Max_iterations_break, ?r1) else Inr ?r1)"
    by (simp add: solve(4) Let_def)
  moreover have "iter_n ?r1 = iter_n r + 1" by simp
  ultimately show ?thesis by (intro disjI2 exI [of _ ?r1] conjI)
qed

lemma bootstrap_loop_nonneg:
  "\<forall>s. 0 \<le> fst (api_solve api s) \<Longrightarrow> iter_n r \<le> mx \<Longrightarrow>
   (fst (bootstrap_loop api pit plot mx r) = Max_iterations_break
      \<and> iter_n (snd (bootstrap_loop api pit plot mx r)) = mx + 1)
   \<or> (\<exists>e. fst (bootstrap_loop api pit plot mx r) = Raised e)"
proof (induction api pit plot mx r rule: bootstrap_loop.induct)
  case (1 api pit plot mx r)
  note ok = "1.prems"(1) and le0 = "1.prems"(2)
  from bootstrap_iteration_nonneg [OF ok, where pit = pit and plot = plot and mx = mx and r = r]
  show ?case
  proof
    assume "\<exists>e r'. bootstrap_iteration api pit plot mx r = Inl (Raised e, r')"
    then obtain e r' where e: "bootstrap_iteration api pit plot mx r = Inl (Raised e, r')"
      by blast
    show ?thesis unfolding bootstrap_loop_exit [OF le0 e] by simp
  next
    assume "\<exists>r1. iter_n r1 = iter_n r + 1
           \<and> bootstrap_iteration api pit plot mx r =
               (if iter_n r + 1 > mx then Inl (Max_iterations_break, r1) else Inr r1)"
    then obtain r1 where r1: "iter_n r1 = iter_n r + 1"
      and it: "bootstrap_iteration api pit plot mx r =
               (if iter_n r + 1 > mx then Inl (Max_iterations_break, r1) else Inr r1)"
      by blast
    show ?thesis
    proof (cases "iter_n r + 1 > mx")
      case True
      with it have e: "bootstrap_iteration api pit plot mx r = Inl (Max_iterations_break, r1)"
        by simp
      from True le0 have "iter_n r = mx" by simp
      with r1 show ?thesis unfolding bootstrap_loop_exit [OF le0 e] by simp
    next
      case False
      with it have c: "bootstrap_iteration api pit plot mx r = Inr r1" by simp
      from False r1 have le: "iter_n r1 \<le> mx" by simp
      from "1.IH" [OF le0 c ok le] show ?thesis
        unfolding bootstrap_loop_continue [OF le0 c] .
    qed
  qed
qed

lemma bootstrap_loop_from_start:
  assumes "0 \<le> mx" "iter_n r = 0" "loop_runs r = 0"
  shows "fst (bootstrap_loop api pit plot mx r) \<noteq> Not_converged_raise
    \<and> int (loop_runs (snd (bootstrap_loop api pit plot mx r))) \<le> mx + 1
    \<and> ((\<forall>s. 0 \<le> fst (api_solve api s)) \<longrightarrow>
          (fst (bootstrap_loop api pit plot mx r) = Max_iterations_break
             \<and> iter_n (snd (bootstrap_loop api pit plot mx r)) = mx + 1)
          \<or> (\<exists>e. fst (bootstrap_loop api pit plot mx r) = Raised e))
    \<and> (step_succeeds pit \<and> (\<forall>s. 0 \<le> fst (api_solve api s)) \<longrightarrow>
          fst (bootstrap_loop api pit plot mx r) = Max_iterations_break
          \<and> int (loop_runs (snd (bootstrap_loop api pit plot mx r))) = mx + 1)"
proof (intro conjI impI)
  show "fst (bootstrap_loop api pit plot mx r) \<noteq> Not_converged_raise"
    by (rule bootstrap_loop_never_raises)
  from bootstrap_loop_runs_bound [where api = api and pit = pit and plot = plot
      and mx = mx and r = r] assms
  show "int (loop_runs (snd (bootstrap_loop api pit plot mx r))) \<le> mx + 1"
    by simp
  from assms have le: "iter_n r \<le> mx" by simp
  {
    assume "\<forall>s. 0 \<le> fst (api_solve api s)"
    from bootstrap_loop_nonneg [OF this le]
    show "(fst (bootstrap_loop api pit plot mx r) = Max_iterations_break
             \<and> iter_n (snd (bootstrap_loop api pit plot mx r)) = mx + 1)
          \<or> (\<exists>e. fst (bootstrap_loop api pit plot mx r) = Raised e)" .
  }
  {
    assume a: "step_succeeds pit \<and> (\<forall>s. 0 \<le> fst (api_solve api s))"
    then have s: "step_succeeds pit" and n: "\<forall>s. 0 \<le> fst (api_solve api s)" by simp_all
    note bootstrap_loop_success [OF s n le, where plot = plot]
    with assms show "fst (bootstrap_loop api pit plot mx r) = Max_iterations_break"
      and "int (loop_runs (snd (bootstrap_loop api pit plot mx r))) = mx + 1"
      by simp_all
  }
qed

lemma bootstrap_initialize_Inr:
  assumes "bootstrap_initialize api pit r = Inr r'"
  shows "loop_runs r' = loop_runs r"
proof (cases "pit True (rescale_ind_Jtor_by_ftr r) (- 1) (solver r)")
  case (Inl e)
  with assms show ?thesis by (simp add: bootstrap_initialize_def)
next
  case (Inr x)
  obtain a s1 where x: "x = (a, s1)" by (cases x)
  obtain pp0 ffp0 where a: "a = (pp0, ffp0)" by (cases a)
  note step = Inr [unfolded x a]
  show ?thesis
  proof (cases "enforce_edge_and_clean pp0 ffp0")
    case (Inl e)
    with step assms show ?thesis by (simp add: bootstrap_initialize_def)
  next
    case (Inr y)
    obtain pp ffp where y: "y = (pp, ffp)" by (cases y)
    note clean = Inr [unfolded y]
    from assms step clean show ?thesis
      by (auto simp: bootstrap_initialize_def Let_def split: if_splits)
  qed
qed

lemma bootstrap_initialize_Inl:
  assumes "bootstrap_initialize api pit r = Inl res"
  shows "loop_runs (snd res) = loop_runs r
    \<and> fst res \<noteq> Not_converged_raise
    \<and> ((\<forall>s. 0 \<le> fst (api_solve api s)) \<longrightarrow> (\<exists>e. fst res = Raised e))
    \<and> \<not> (step_succeeds pit \<and> (\<forall>s. 0 \<le> fst (api_solve api s)))"
proof (cases "pit True (rescale_ind_Jtor_by_ftr r) (- 1) (solver r)")
  case (Inl e)
  with assms have res: "res = (Raised e, r)" by (simp add: bootstrap_initialize_def)
  have "\<not> step_succeeds pit"
  proof
    assume "step_succeeds pit"
    from step_succeedsD [OF this, where il = True and rs = "rescale_ind_Jtor_by_ftr r"
        and it = "- 1" and s = "solver r"] Inl
    show False by auto
  qed
  with res show ?thesis by simp
next
  case (Inr x)
  obtain a s1 where x: "x = (a, s1)" by (cases x)
  obtain pp0 ffp0 where a: "a = (pp0, ffp0)" by (cases a)
  note step = Inr [unfolded x a]
  show ?thesis
  proof (cases "enforce_edge_and_clean pp0 ffp0")
    case (Inl e)
    with step assms have res: "res = (Raised e, r\<lparr>solver := s1\<rparr>)"
      by (simp add: bootstrap_initialize_def)
    have "\<not> step_succeeds pit"
    proof
      assume "step_succeeds pit"
      from step_succeedsD [OF this, where il = True and rs = "rescale_ind_Jtor_by_ftr r"
          and it = "- 1" and s = "solver r"] step
      have "prof_y pp0 \<noteq> []" "prof_y ffp0 \<noteq> []" by auto
      from enforce_edge_and_clean_nonempty [OF this] Inl show False by auto
    qed
    with res show ?thesis by simp
  next
    case (Inr y)
    obtain pp ffp where y: "y = (pp, ffp)" by (cases y)
    note clean = Inr [unfolded y]
    obtain fl s3 where sol: "api_solve api (api_set_profiles api ffp pp s1) = (fl, s3)"
      by (cases "api_solve api (api_set_profiles api ffp pp s1)")
    from assms step clean sol have fl: "fl < 0"
      and res: "res = (Init_solve_failed, r\<lparr>solver := s3, flag := fl,
          rescale_ind_Jtor_by_ftr := False, handed := handed r @ [(ffp, pp)]\<rparr>)"
      by (auto simp: bootstrap_initialize_def Let_def split: if_splits)
    have "\<not> (\<forall>s. 0 \<le> fst (api_solve api s))"
    proof
      assume "\<forall>s. 0 \<le> fst (api_solve api s)"
      then have "0 \<le> fst (api_solve api (api_set_profiles api ffp pp s1))" by (rule spec)
      with sol fl show False by simp
    qed
    with res show ?thesis by simp
  qed
qed

text \<open>
  C8. For \<open>max_iterations \<ge> 0\<close> the plain driver never reaches its
  \<^verbatim>\<open>raise TypeError\<close>, and the loop body runs at most \<open>max_iterations + 1\<close> times. If every
  solve returns a non-negative flag, the driver leaves through the \<^verbatim>\<open>break\<close> with
  \<open>n = max_iterations + 1\<close>, unless a called function raised; and if moreover
  \<^verbatim>\<open>profile_iteration\<close> always returns non-empty profiles, it leaves through the
  \<^verbatim>\<open>break\<close> after exactly \<open>max_iterations + 1\<close> passes.
\<close>

theorem bootstrap_loop_bounded:
  assumes "0 \<le> max_iterations"
  shows "fst (solve_with_bootstrap api pit plot max_iterations rescale init s0)
       \<noteq> Not_converged_raise
    \<and> int (loop_runs (snd (solve_with_bootstrap api pit plot max_iterations rescale init s0)))
       \<le> max_iterations + 1
    \<and> ((\<forall>s. 0 \<le> fst (api_solve api s)) \<longrightarrow>
          (fst (solve_with_bootstrap api pit plot max_iterations rescale init s0)
               = Max_iterations_break
             \<and> iter_n (snd (solve_with_bootstrap api pit plot max_iterations rescale init s0))
               = max_iterations + 1)
          \<or> (\<exists>e. fst (solve_with_bootstrap api pit plot max_iterations rescale init s0)
               = Raised e))
    \<and> (step_succeeds pit \<and> (\<forall>s. 0 \<le> fst (api_solve api s)) \<longrightarrow>
          fst (solve_with_bootstrap api pit plot max_iterations rescale init s0)
             = Max_iterations_break
          \<and> int (loop_runs
                (snd (solve_with_bootstrap api pit plot max_iterations rescale init s0)))
             = max_iterations + 1)"
proof (cases init)
  case False
  have "iter_n (initial_run s0 rescale) = 0" "loop_runs (initial_run s0 rescale) = 0"
    by (simp_all add: initial_run_def)
  moreover from False have
    eq: "solve_with_bootstrap api pit plot max_iterations rescale init s0
        = bootstrap_loop api pit plot max_iterations (initial_run s0 rescale)"
    by (simp add: solve_with_bootstrap_def)
  ultimately show ?thesis
    unfolding eq using assms by (intro bootstrap_loop_from_start)
next
  case True
  show ?thesis
  proof (cases "bootstrap_initialize api pit (initial_run s0 rescale)")
    case (Inl res)
    with True have eq: "solve_with_bootstrap api pit plot max_iterations rescale init s0 = res"
      by (simp add: solve_with_bootstrap_def)
    from bootstrap_initialize_Inl [OF Inl] assms show ?thesis
      unfolding eq by (simp add: initial_run_def)
  next
    case (Inr r)
    with True have eq: "solve_with_bootstrap api pit plot max_iterations rescale init s0
        = bootstrap_loop api pit plot max_iterations (r\<lparr>iter_n := 0, flag := - 1\<rparr>)"
      by (simp add: solve_with_bootstrap_def)
    from bootstrap_initialize_Inr [OF Inr]
    have "iter_n (r\<lparr>iter_n := 0, flag := - 1\<rparr>) = 0"
      "loop_runs (r\<lparr>iter_n := 0, flag := - 1\<rparr>) = 0"
      by (simp_all add: initial_run_def)
    from bootstrap_loop_from_start [OF assms this, where api = api and pit = pit
        and plot = plot]
    show ?thesis unfolding eq .
  qed
qed

theorem bootstrap_loop_bounded_witness:
  "0 \<le> (2 :: int) \<and> step_succeeds demo_step
   \<and> fst (solve_with_bootstrap (demo_api 1) demo_step False 2 True True 0)
       = Max_iterations_break
   \<and> int (loop_runs (snd (solve_with_bootstrap (demo_api 1) demo_step False 2 True True 0)))
       = 3"
  using bootstrap_loop_bounded [where max_iterations = 2 and api = "demo_api 1"
      and pit = demo_step and plot = False and rescale = True and init = True and ?s0.0 = 0]
  by (simp add: step_succeeds_def demo_step_def demo_api_def demo_pp_def demo_ffp_def)




end
